theory Spec2Isabelle
  imports Main
begin

section \<open>The packaging script \<open>setup.py\<close> of the typing package\<close>

text \<open>
  The script is one module body, run top to bottom: a gate on
  \<open>sys.version_info\<close> that writes a diagnostic and calls \<open>exit(1)\<close>, a row of
  literal module constants, a dictionary lookup keyed by
  \<open>sys.version_info.major\<close>, and one call of the external \<open>setup\<close>.
  Its only input is the interpreter's version tuple; its effects are the text
  written to \<open>sys.stderr\<close>, the binding of the module variable
  \<open>package_dir\<close>, the call of \<open>setup\<close> and the way the module body ends.

  The two imports at the top, of \<open>sys\<close> and of \<open>setup\<close> from \<open>setuptools\<close>, are
  taken to succeed: the model starts at the gate.

  A version tuple is the list of its integer components, major version first.
  The interpreter's own \<open>sys.version_info\<close> has five components, the fourth a
  string (the release level). The script compares it with tuples of at most
  three integers only, so the scan never reaches the fourth component: from the
  third component on only the presence of further components counts (lemma
  \<open>script_first_three\<close> below), and the list of the integer components stands
  for the whole tuple.
\<close>

subsection \<open>Python values the script uses\<close>

text \<open>
  Exceptions are values. \<open>exit(1)\<close> raises \<open>SystemExit(1)\<close>; a subscript on a
  dictionary without the key raises \<open>KeyError(key)\<close>; reading \<open>.major\<close> needs a
  first component. \<open>Exception\<close> stands for anything else the external toolchain
  may raise.
\<close>

datatype exn = SystemExit int | KeyError int | AttributeError | Exception string

text \<open>
  Python's \<open><\<close> on tuples (of integers here): the first position where the items
  differ decides by the items' \<open><\<close>; when one tuple runs out first, the lengths
  decide, so a proper prefix is below the longer tuple.
\<close>

fun tuple_lt :: "int list \<Rightarrow> int list \<Rightarrow> bool" where
  "tuple_lt [] [] = False"
| "tuple_lt [] (y # ys) = True"
| "tuple_lt (x # xs) [] = False"
| "tuple_lt (x # xs) (y # ys) = (if x = y then tuple_lt xs ys else x < y)"

text \<open>
  Python's \<open><=\<close> on tuples, by the same scan. The script does not use it; the
  properties below use it to say "at or above".
\<close>

fun tuple_le :: "int list \<Rightarrow> int list \<Rightarrow> bool" where
  "tuple_le [] ys = True"
| "tuple_le (x # xs) [] = False"
| "tuple_le (x # xs) (y # ys) = (if x = y then tuple_le xs ys else x \<le> y)"

text \<open>
  \<open>str.lstrip()\<close> with no argument drops the leading whitespace. These six
  characters are whitespace for Python 2 byte strings and Python 3 text strings
  alike; Python 3 knows further separators, none of which occurs in the script.
\<close>

definition py_isspace :: "char \<Rightarrow> bool" where
  "py_isspace c \<longleftrightarrow> c \<in> {CHR '' '', CHR 0x09, CHR 0x0A, CHR 0x0B, CHR 0x0C, CHR 0x0D}"

definition lstrip :: "string \<Rightarrow> string" where
  "lstrip s = dropWhile py_isspace s"

text \<open>
  The version tuple of an interpreter, \<open>sys.version_info\<close>, always carries a
  major, a minor and a micro version, and none of its integer components is
  negative. The script itself does not check this; the properties below use it
  where they speak of an interpreter's version tuple.
\<close>

fun is_version_info :: "int list \<Rightarrow> bool" where
  "is_version_info (a # b # c # rest) \<longleftrightarrow>
     0 \<le> a \<and> 0 \<le> b \<and> 0 \<le> c \<and> list_all (\<lambda>d. 0 \<le> d) rest"
| "is_version_info _ \<longleftrightarrow> False"

subsection \<open>The version gate\<close>

text \<open>
  \<open>sys.version_info < (2, 7, 0) or (3,) < sys.version_info < (3, 2, 0)\<close>; the
  chained comparison is the conjunction of its two halves.
\<close>

definition unsupported :: "int list \<Rightarrow> bool" where
  "unsupported version_info \<longleftrightarrow>
     tuple_lt version_info [2, 7, 0] \<or>
     (tuple_lt [3] version_info \<and> tuple_lt version_info [3, 2, 0])"

definition diagnostic :: string where
  "diagnostic =
     ''ERROR: You need either Python2 2.7 or later '' @
     ''or Python3 3.2 or later '' @
     ''to install the typing package.'' @ [CHR 0x0A]"

subsection \<open>Module constants\<close>

definition version :: string where
  "version = ''0.0.1.dev1''"

definition description :: string where
  "description = ''Type annotations for Python''"

definition long_description :: string where
  "long_description = lstrip (concat (map (\<lambda>line. line @ [CHR 0x0A])
     ['''',
      ''Typing -- Type annotations for Python'',
      '''',
      ''Typing is intended as a standard notation for Python function and variable type'',
      ''annotations. The notation can be used for documenting code in a concise,'',
      ''standard format, and it has been designed to also be used by static and runtime'',
      ''type checkers, static analyzers, IDEs and other tools. The typing module'',
      ''originates from the mypy optional static type checker for Python.'']))"

definition classifiers :: "string list" where
  "classifiers =
     [''Development Status :: 2 - Pre-Alpha'',
      ''Environment :: Console'',
      ''Intended Audience :: Developers'',
      ''License :: OSI Approved :: MIT License'',
      ''Operating System :: POSIX'',
      ''Programming Language :: Python :: 2.7'',
      ''Programming Language :: Python :: 3.2'',
      ''Programming Language :: Python :: 3.3'',
      ''Programming Language :: Python :: 3.4'',
      ''Topic :: Software Development'']"

subsection \<open>The source-layout selector\<close>

text \<open>The dictionary \<open>{2: 'python2', 3: '.'}\<close> and its subscript.\<close>

definition layout :: "int \<rightharpoonup> string" where
  "layout = [2 \<mapsto> ''python2'', 3 \<mapsto> ''.'']"

definition select_package_dir :: "int \<Rightarrow> exn + string" where
  "select_package_dir k = (case layout k of None \<Rightarrow> Inl (KeyError k) | Some d \<Rightarrow> Inr d)"

text \<open>\<open>sys.version_info.major\<close>: the first component of the version tuple.\<close>

definition major :: "int list \<Rightarrow> exn + int" where
  "major version_info = (case version_info of [] \<Rightarrow> Inl AttributeError | k # _ \<Rightarrow> Inr k)"

subsection \<open>The record handed to the toolchain\<close>

text \<open>The keyword arguments of the \<open>setup\<close> call, one field each.\<close>

record setup_args =
  kw_name :: string
  kw_version :: string
  kw_description :: string
  kw_long_description :: string
  kw_author :: string
  kw_author_email :: string
  kw_url :: string
  kw_license :: string
  kw_platforms :: "string list"
  kw_package_dir :: "(string \<times> string) list"
  kw_py_modules :: "string list"
  kw_classifiers :: "string list"

definition metadata :: "string \<Rightarrow> setup_args" where
  "metadata dir =
     \<lparr>kw_name = ''typing'',
      kw_version = version,
      kw_description = description,
      kw_long_description = long_description,
      kw_author = ''Jukka Lehtosalo'',
      kw_author_email = ''jukka.lehtosalo@iki.fi'',
      kw_url = ''http://www.mypy-lang.org/'',
      kw_license = ''MIT License'',
      kw_platforms = [''POSIX''],
      kw_package_dir = [('''', dir)],
      kw_py_modules = [''typing''],
      kw_classifiers = classifiers\<rparr>"

subsection \<open>Running the script\<close>

text \<open>
  The external \<open>setup\<close> entry point is a parameter: given the record, it returns
  or raises. What the process has done so far is a record: the texts written to
  the error stream, the module variable \<open>package_dir\<close> (unbound at first), and the
  records \<open>setup\<close> was called with.
\<close>

type_synonym toolchain = "setup_args \<Rightarrow> exn + unit"

record process =
  err_stream :: "string list"
  package_dir :: "string option"
  setup_calls :: "setup_args list"

definition fresh :: process where
  "fresh = \<lparr>err_stream = [], package_dir = None, setup_calls = []\<rparr>"

definition script :: "toolchain \<Rightarrow> int list \<Rightarrow> process \<Rightarrow> (exn + unit) \<times> process" where
  "script setup version_info p =
     (if unsupported version_info
      then (Inl (SystemExit 1), p\<lparr>err_stream := err_stream p @ [diagnostic]\<rparr>)
      else
        (case major version_info of
           Inl e \<Rightarrow> (Inl e, p)
         | Inr k \<Rightarrow>
             (case select_package_dir k of
                Inl e \<Rightarrow> (Inl e, p)
              | Inr dir \<Rightarrow>
                  (setup (metadata dir),
                   p\<lparr>package_dir := Some dir,
                     setup_calls := setup_calls p @ [metadata dir]\<rparr>))))"

text \<open>
  The exit status of the interpreter process: 0 when the module body runs to its
  end, the argument of an uncaught \<open>SystemExit\<close> (an integer here, taken as it
  is: the operating system's cut to eight bits is left out), and 1 for any
  other uncaught exception.
\<close>

fun exit_status :: "exn + unit \<Rightarrow> int" where
  "exit_status (Inr u) = 0"
| "exit_status (Inl (SystemExit n)) = n"
| "exit_status (Inl e) = 1"

text \<open>Two toolchains to run the script with: one that returns, one that exits.\<close>

definition setup_returning :: toolchain where
  "setup_returning kw = Inr ()"

definition setup_exiting :: "int \<Rightarrow> toolchain" where
  "setup_exiting n kw = Inl (SystemExit n)"

section \<open>Properties\<close>

subsection \<open>Tuple comparison\<close>

lemma tuple_lt_Nil_left: "tuple_lt [] ys \<longleftrightarrow> ys \<noteq> []"
  by (cases ys) simp_all

lemma tuple_lt_Nil_right: "\<not> tuple_lt xs []"
  by (cases xs) simp_all

lemma tuple_le_iff_not_lt: "tuple_le xs ys \<longleftrightarrow> \<not> tuple_lt ys xs"
  by (induction ys xs rule: tuple_lt.induct) auto

text \<open>The scan is the lexicographic order of the library.\<close>

lemma tuple_lt_lexord: "tuple_lt xs ys \<longleftrightarrow> (xs, ys) \<in> lexord {(a, b). a < b}"
  by (induction xs ys rule: tuple_lt.induct) auto

subsection \<open>The gate, by the shape of the tuple\<close>

lemma unsupported_Nil: "unsupported []"
  by (simp add: unsupported_def)

lemma unsupported_Cons:
  "unsupported (a # r) \<longleftrightarrow>
     a < 2 \<or> (a = 2 \<and> tuple_lt r [7, 0]) \<or> (a = 3 \<and> r \<noteq> [] \<and> tuple_lt r [2, 0])"
  by (auto simp: unsupported_def tuple_lt_Nil_left)

text \<open>
  Past the third component nothing is read: a tuple of three or more components
  is treated as its first three.
\<close>

lemma unsupported_first_three:
  "unsupported (a # b # c # rest) \<longleftrightarrow> unsupported [a, b, c]"
  by (simp add: unsupported_def tuple_lt_Nil_right)

lemma is_version_info_shape:
  "is_version_info v \<Longrightarrow> \<exists>a b r. v = a # b # r \<and> 0 \<le> a \<and> 0 \<le> b"
  by (cases v rule: is_version_info.cases) simp_all

lemma major_eq_Inr: "major v = Inr k \<longleftrightarrow> (\<exists>r. v = k # r)"
  by (cases v) (auto simp: major_def)

lemma passes_has_major: "\<not> unsupported v \<Longrightarrow> \<exists>k r. v = k # r \<and> 2 \<le> k"
  by (cases v) (auto simp: unsupported_Nil unsupported_Cons)

subsection \<open>The selector\<close>

lemma layout_2: "layout 2 = Some ''python2''"
  by (simp add: layout_def)

lemma layout_3: "layout 3 = Some ''.''"
  by (simp add: layout_def)

lemma layout_other: "k \<noteq> 2 \<Longrightarrow> k \<noteq> 3 \<Longrightarrow> layout k = None"
  by (simp add: layout_def)

subsection \<open>The three ways the script ends\<close>

lemma script_rejects:
  "unsupported v \<Longrightarrow>
   script setup v p = (Inl (SystemExit 1), p\<lparr>err_stream := err_stream p @ [diagnostic]\<rparr>)"
  by (simp add: script_def)

lemma script_selects:
  "\<not> unsupported v \<Longrightarrow> major v = Inr k \<Longrightarrow> layout k = Some dir \<Longrightarrow>
   script setup v p =
     (setup (metadata dir),
      p\<lparr>package_dir := Some dir, setup_calls := setup_calls p @ [metadata dir]\<rparr>)"
  by (simp add: script_def select_package_dir_def)

lemma script_lookup_fails:
  "\<not> unsupported v \<Longrightarrow> major v = Inr k \<Longrightarrow> layout k = None \<Longrightarrow>
   script setup v p = (Inl (KeyError k), p)"
  by (simp add: script_def select_package_dir_def)

lemma diagnostic_nonempty: "diagnostic \<noteq> []"
  by (simp add: diagnostic_def)

lemma script_first_three:
  "script setup (a # b # c # rest) p = script setup [a, b, c] p"
  by (simp add: script_def unsupported_first_three [of a b c rest] major_def)

text \<open>Two runs, evaluated: Python 3.4.0 and a major version 4.\<close>

lemma run_3_4_0:
  "\<not> unsupported [3, 4, 0] \<and>
   script setup [3, 4, 0] fresh =
     (setup (metadata ''.''),
      \<lparr>err_stream = [], package_dir = Some ''.'', setup_calls = [metadata ''.'']\<rparr>)"
  by (simp add: script_def unsupported_def major_def select_package_dir_def layout_def
      fresh_def)

lemma run_4_0_0:
  "\<not> unsupported [4, 0, 0] \<and> script setup [4, 0, 0] fresh = (Inl (KeyError 4), fresh)"
  by (simp add: script_def unsupported_def major_def select_package_dir_def layout_def)

subsection \<open>What the script does, by version tuple\<close>

text \<open>
  C1. A 3.x version is a tuple of major version 3 followed by a minor component
  \<open>x\<close>, as every \<open>sys.version_info\<close> of major version 3 is. For every version
  tuple that is below \<open>(2, 7, 0)\<close>, or that is a 3.x version below \<open>(3, 2, 0)\<close>,
  the script raises \<open>SystemExit(1)\<close>, so the process ends with status 1, after
  writing the (non-empty) diagnostic to the error stream and nothing else:
  \<open>package_dir\<close> is not bound and \<open>setup\<close> is not called, whatever the toolchain is.
\<close>

theorem gate_exits_with_diagnostic:
  assumes "tuple_lt v [2, 7, 0] \<or> ((\<exists>x rest. v = 3 # x # rest) \<and> tuple_lt v [3, 2, 0])"
  shows "script setup v p =
           (Inl (SystemExit 1), p\<lparr>err_stream := err_stream p @ [diagnostic]\<rparr>) \<and>
         exit_status (fst (script setup v p)) = 1 \<and>
         diagnostic \<noteq> [] \<and>
         package_dir (snd (script setup v p)) = package_dir p \<and>
         setup_calls (snd (script setup v p)) = setup_calls p"
proof -
  have "unsupported v"
    using assms
  proof
    assume "tuple_lt v [2, 7, 0]"
    then show ?thesis by (simp add: unsupported_def)
  next
    assume h: "(\<exists>x rest. v = 3 # x # rest) \<and> tuple_lt v [3, 2, 0]"
    then obtain x rest where v: "v = 3 # x # rest" by blast
    with h have "tuple_lt (x # rest) [2, 0]" by simp
    with v show ?thesis by (simp add: unsupported_Cons)
  qed
  then show ?thesis
    by (simp add: script_rejects diagnostic_nonempty)
qed

theorem gate_exits_with_diagnostic_witness:
  "is_version_info [3, 1, 4, 0] \<and> tuple_lt [3, 1, 4, 0] [3, 2, 0] \<and>
   script setup_returning [3, 1, 4, 0] fresh =
     (Inl (SystemExit 1), \<lparr>err_stream = [diagnostic], package_dir = None, setup_calls = []\<rparr>) \<and>
   exit_status (fst (script setup_returning [3, 1, 4, 0] fresh)) = 1 \<and>
   tuple_lt [2, 6, 9, 0] [2, 7, 0] \<and>
   exit_status (fst (script setup_returning [2, 6, 9, 0] fresh)) = 1"
proof -
  have a: "tuple_lt [3, 1, 4, 0] [2, 7, 0] \<or>
      ((\<exists>x rest. [3, 1, 4, 0] = 3 # x # rest) \<and> tuple_lt [3, 1, 4, 0] [3, 2, 0])"
    by simp
  have b: "tuple_lt [2, 6, 9, 0] [2, 7, 0] \<or>
      ((\<exists>x rest. [2, 6, 9, 0] = 3 # x # rest) \<and> tuple_lt [2, 6, 9, 0] [3, 2, 0])"
    by simp
  from gate_exits_with_diagnostic [OF a, of setup_returning fresh]
    gate_exits_with_diagnostic [OF b, of setup_returning fresh]
  show ?thesis
    by (simp add: fresh_def)
qed

text \<open>
  C2. For every interpreter version tuple (major, minor and micro version
  present, no component negative) at or above \<open>(2, 7, 0)\<close> and below \<open>(3, 0)\<close>:
  the gate does not reject it, its major version is 2, the selector returns the
  entry of key 2, \<open>'python2'\<close>, and \<open>setup\<close> is called with the record built on
  that directory; the script ends as \<open>setup\<close> does.
\<close>

theorem python2_selects_python2:
  assumes "is_version_info v" and "tuple_le [2, 7, 0] v" and "tuple_lt v [3, 0]"
  shows "\<not> unsupported v \<and>
         major v = Inr 2 \<and>
         select_package_dir 2 = Inr ''python2'' \<and>
         script setup v p =
           (setup (metadata ''python2''),
            p\<lparr>package_dir := Some ''python2'',
              setup_calls := setup_calls p @ [metadata ''python2'']\<rparr>)"
proof -
  from is_version_info_shape [OF assms(1)]
  obtain a b r where v: "v = a # b # r" and b: "0 \<le> b"
    by blast
  from assms(2) have ge: "\<not> tuple_lt v [2, 7, 0]"
    by (simp add: tuple_le_iff_not_lt)
  with v have "2 \<le> a"
    by (auto split: if_splits)
  moreover from assms(3) v b have "a < 3"
    by (auto simp: tuple_lt_Nil_right split: if_splits)
  ultimately have a: "a = 2"
    by simp
  with ge v have "\<not> tuple_lt (b # r) [7, 0]"
    by simp
  with v a have pass: "\<not> unsupported v"
    by (simp add: unsupported_Cons)
  from v a have m: "major v = Inr 2"
    by (simp add: major_def)
  from pass m show ?thesis
    by (simp add: script_selects [OF pass m layout_2] select_package_dir_def layout_2)
qed

theorem python2_selects_python2_witness:
  "is_version_info [2, 7, 18, 0] \<and>
   tuple_le [2, 7, 0] [2, 7, 18, 0] \<and> tuple_lt [2, 7, 18, 0] [3, 0] \<and>
   \<not> unsupported [2, 7, 18, 0] \<and>
   script setup_returning [2, 7, 18, 0] fresh =
     (Inr (),
      \<lparr>err_stream = [], package_dir = Some ''python2'',
       setup_calls = [metadata ''python2'']\<rparr>)"
proof -
  have a: "is_version_info [2, 7, 18, 0]"
    and b: "tuple_le [2, 7, 0] [2, 7, 18, 0]"
    and c: "tuple_lt [2, 7, 18, 0] [3, 0]"
    by simp_all
  from python2_selects_python2 [OF a b c, of setup_returning fresh] a b c
  show ?thesis
    by (simp add: fresh_def setup_returning_def)
qed

text \<open>
  C3, as amended. For every version tuple at or above \<open>(3, 2, 0)\<close> whose major
  version is 3: the gate does not reject it, the selector returns the entry of
  key 3, \<open>'.'\<close>, and \<open>setup\<close> is called with the record built on that directory;
  the script ends as \<open>setup\<close> does.
\<close>

theorem python3_selects_dot:
  assumes "tuple_le [3, 2, 0] v" and "major v = Inr 3"
  shows "\<not> unsupported v \<and>
         select_package_dir 3 = Inr ''.'' \<and>
         script setup v p =
           (setup (metadata ''.''),
            p\<lparr>package_dir := Some ''.'', setup_calls := setup_calls p @ [metadata ''.'']\<rparr>)"
proof -
  from assms(2) obtain r where v: "v = 3 # r"
    by (auto simp: major_eq_Inr)
  from assms(1) v have "\<not> tuple_lt r [2, 0]"
    by (simp add: tuple_le_iff_not_lt)
  with v have pass: "\<not> unsupported v"
    by (simp add: unsupported_Cons)
  show ?thesis
    by (simp add: pass script_selects [OF pass assms(2) layout_3] select_package_dir_def
        layout_3)
qed

theorem python3_selects_dot_witness:
  "tuple_le [3, 2, 0] [3, 4, 0] \<and> major [3, 4, 0] = Inr 3 \<and>
   \<not> unsupported [3, 4, 0] \<and>
   script (setup_exiting 2) [3, 4, 0] fresh =
     (Inl (SystemExit 2),
      \<lparr>err_stream = [], package_dir = Some ''.'', setup_calls = [metadata ''.'']\<rparr>)"
  using python3_selects_dot [of "[3, 4, 0]" "setup_exiting 2" fresh]
  by (simp add: major_def fresh_def setup_exiting_def)

text \<open>
  C3 as stated fails at \<open>(4, 0, 0)\<close>: the tuple is at or above \<open>(3, 2, 0)\<close> and the
  gate lets it through, but the dictionary has no key 4: the selector raises
  \<open>KeyError(4)\<close>, no directory is selected and \<open>setup\<close> is not called.
\<close>

theorem major_four_selects_nothing:
  "tuple_le [3, 2, 0] [4, 0, 0] \<and> \<not> unsupported [4, 0, 0] \<and>
   script setup_returning [4, 0, 0] fresh = (Inl (KeyError 4), fresh) \<and>
   package_dir fresh = None"
  using run_4_0_0 [of setup_returning]
  by (simp add: fresh_def)

text \<open>
  C4. Every record the script hands to \<open>setup\<close> has name \<open>'typing'\<close>, version
  \<open>'0.0.1.dev1'\<close> and license \<open>'MIT License'\<close>, whatever the version tuple and the
  toolchain.
\<close>

theorem handed_record_literals:
  assumes "m \<in> set (setup_calls (snd (script setup v fresh)))"
  shows "kw_name m = ''typing'' \<and> kw_version m = ''0.0.1.dev1'' \<and>
         kw_license m = ''MIT License''"
proof -
  have "\<exists>dir. m = metadata dir"
    using assms
    by (auto simp: script_def fresh_def split: if_splits sum.splits)
  then show ?thesis
    by (auto simp: metadata_def version_def)
qed

theorem handed_record_literals_witness:
  "metadata ''.'' \<in> set (setup_calls (snd (script setup_returning [3, 4, 0] fresh))) \<and>
   kw_name (metadata ''.'') = ''typing'' \<and>
   kw_version (metadata ''.'') = ''0.0.1.dev1'' \<and>
   kw_license (metadata ''.'') = ''MIT License''"
proof -
  have h: "metadata ''.'' \<in> set (setup_calls (snd (script setup_returning [3, 4, 0] fresh)))"
    using run_3_4_0 [of setup_returning] by simp
  from handed_record_literals [OF h] h show ?thesis
    by simp
qed

text \<open>
  C5, as amended. Every version tuple that passes the gate has a major version,
  and it is at least 2; when the tuple is moreover below \<open>(4,)\<close>, the major
  version is 2 or 3 and the lookup returns a directory, so the lookup-error
  branch is not taken.
\<close>

theorem gate_bounds_major:
  assumes "\<not> unsupported v"
  shows "(\<exists>k. major v = Inr k \<and> 2 \<le> k) \<and>
         (tuple_lt v [4] \<longrightarrow>
            (major v = Inr 2 \<or> major v = Inr 3) \<and>
            (\<exists>k dir. major v = Inr k \<and> select_package_dir k = Inr dir))"
proof -
  from assms obtain k r where v: "v = k # r" and k: "2 \<le> k"
    using passes_has_major by blast
  have m: "major v = Inr k"
    using v by (simp add: major_def)
  have "(major v = Inr 2 \<or> major v = Inr 3) \<and>
        (\<exists>k dir. major v = Inr k \<and> select_package_dir k = Inr dir)"
    if "tuple_lt v [4]"
  proof -
    from that v have "k < 4"
      by (auto simp: tuple_lt_Nil_right split: if_splits)
    with k have "k = 2 \<or> k = 3"
      by arith
    then show ?thesis
      using m by (auto simp: select_package_dir_def layout_2 layout_3)
  qed
  with m k show ?thesis
    by blast
qed

theorem gate_bounds_major_witness:
  "\<not> unsupported [3, 4, 0] \<and> tuple_lt [3, 4, 0] [4] \<and>
   major [3, 4, 0] = Inr 3 \<and> select_package_dir 3 = Inr ''.''"
  using gate_bounds_major [of "[3, 4, 0]"] run_3_4_0
  by (simp add: major_def select_package_dir_def layout_3)

text \<open>
  C5 as stated fails at \<open>(4, 0, 0)\<close>: the tuple passes the gate, its major version
  is 4, neither 2 nor 3, and the lookup raises \<open>KeyError(4)\<close>.
\<close>

theorem gate_admits_major_four:
  "\<not> unsupported [4, 0, 0] \<and> major [4, 0, 0] = Inr 4 \<and>
   select_package_dir 4 = Inl (KeyError 4) \<and>
   fst (script setup_returning [4, 0, 0] fresh) = Inl (KeyError 4)"
  using run_4_0_0 [of setup_returning]
  by (simp add: major_def select_package_dir_def layout_other)

text \<open>
  C6. For every major version number other than 2 and 3, the subscript on the
  two-entry dictionary raises \<open>KeyError\<close> with that key; no directory is
  returned, no default is taken.
\<close>

theorem select_package_dir_unlisted:
  "k \<noteq> 2 \<Longrightarrow> k \<noteq> 3 \<Longrightarrow> select_package_dir k = Inl (KeyError k)"
  by (simp add: select_package_dir_def layout_other)

theorem select_package_dir_unlisted_witness:
  "(4::int) \<noteq> 2 \<and> (4::int) \<noteq> 3 \<and> select_package_dir 4 = Inl (KeyError 4)"
  using select_package_dir_unlisted [of 4] by simp

text \<open>
  C7, as amended. Whenever the gate rejects the version tuple, the diagnostic
  is written and the exit status is 1. Whenever the gate passes and the major
  version is 2 or 3, the script ends exactly as the call of \<open>setup\<close> on the
  assembled record ends, be it a return or any exception: nothing is caught or
  changed, and the exit status is the one that ending gives (which may be 1 as
  well).
\<close>

theorem exit_status_of_script:
  "(unsupported v \<longrightarrow>
      exit_status (fst (script setup v p)) = 1 \<and>
      err_stream (snd (script setup v p)) = err_stream p @ [diagnostic]) \<and>
   (\<not> unsupported v \<and> (major v = Inr 2 \<or> major v = Inr 3) \<longrightarrow>
      (\<exists>k dir. major v = Inr k \<and> select_package_dir k = Inr dir \<and>
         fst (script setup v p) = setup (metadata dir) \<and>
         exit_status (fst (script setup v p)) = exit_status (setup (metadata dir)) \<and>
         err_stream (snd (script setup v p)) = err_stream p))"
proof (intro conjI impI)
  assume "unsupported v"
  then show "exit_status (fst (script setup v p)) = 1"
    and "err_stream (snd (script setup v p)) = err_stream p @ [diagnostic]"
    by (simp_all add: script_rejects)
next
  assume h: "\<not> unsupported v \<and> (major v = Inr 2 \<or> major v = Inr 3)"
  then obtain k dir where m: "major v = Inr k" and l: "layout k = Some dir"
    using layout_2 layout_3 by blast
  from h have pass: "\<not> unsupported v"
    by simp
  have "select_package_dir k = Inr dir"
    using l by (simp add: select_package_dir_def)
  with m show "\<exists>k dir. major v = Inr k \<and> select_package_dir k = Inr dir \<and>
      fst (script setup v p) = setup (metadata dir) \<and>
      exit_status (fst (script setup v p)) = exit_status (setup (metadata dir)) \<and>
      err_stream (snd (script setup v p)) = err_stream p"
    by (simp add: script_selects [OF pass m l])
qed

theorem exit_status_of_script_witness:
  "unsupported [2, 6, 9] \<and>
   exit_status (fst (script setup_returning [2, 6, 9] fresh)) = 1 \<and>
   \<not> unsupported [3, 4, 0] \<and> major [3, 4, 0] = Inr 3 \<and>
   fst (script (setup_exiting 7) [3, 4, 0] fresh) = Inl (SystemExit 7) \<and>
   exit_status (fst (script (setup_exiting 7) [3, 4, 0] fresh)) = 7"
proof -
  have a: "unsupported [2, 6, 9]"
    by (simp add: unsupported_def)
  have b: "\<not> unsupported [3, 4, 0] \<and> (major [3, 4, 0] = Inr 2 \<or> major [3, 4, 0] = Inr 3)"
    by (simp add: unsupported_def major_def)
  from exit_status_of_script [of "[2, 6, 9]" setup_returning fresh] a
  have "exit_status (fst (script setup_returning [2, 6, 9] fresh)) = 1"
    by simp
  moreover from exit_status_of_script [of "[3, 4, 0]" "setup_exiting 7" fresh] b
  have "fst (script (setup_exiting 7) [3, 4, 0] fresh) = Inl (SystemExit 7)"
    by (auto simp: setup_exiting_def)
  ultimately show ?thesis
    using a b by (simp add: major_def)
qed

text \<open>
  C7 as stated fails twice. At \<open>(3, 4, 0)\<close> with a toolchain that exits with
  status 1, the exit status is 1 although no unsupported version was detected.
  At \<open>(4, 0, 0)\<close> the gate detects nothing either, \<open>setup\<close> is never called, and
  the exit status is the 1 of the uncaught \<open>KeyError\<close>, where the toolchain,
  had it been called, would have given 0.
\<close>

theorem status_one_without_rejection:
  "\<not> unsupported [3, 4, 0] \<and>
   exit_status (fst (script (setup_exiting 1) [3, 4, 0] fresh)) = 1 \<and>
   \<not> unsupported [4, 0, 0] \<and>
   setup_calls (snd (script setup_returning [4, 0, 0] fresh)) = [] \<and>
   exit_status (fst (script setup_returning [4, 0, 0] fresh)) = 1 \<and>
   exit_status (setup_returning (metadata ''.'')) = 0"
  using run_3_4_0 [of "setup_exiting 1"] run_4_0_0 [of setup_returning]
  by (simp add: setup_exiting_def setup_returning_def fresh_def)

text \<open>
  C8, as amended. Whenever the gate passes and the major version is 2 or 3, the
  script calls \<open>setup\<close> exactly once, with the record of the twelve keyword
  arguments: name, version, description, long description, author and author
  e-mail, homepage URL, license, platforms, the directory mapping from the empty
  package name to the selected directory, the single module \<open>'typing'\<close> and the
  classifiers.
\<close>

theorem setup_called_once:
  assumes "\<not> unsupported v" and "major v = Inr 2 \<or> major v = Inr 3"
  shows "\<exists>k dir. major v = Inr k \<and> select_package_dir k = Inr dir \<and>
           setup_calls (snd (script setup v p)) = setup_calls p @ [metadata dir] \<and>
           metadata dir =
             \<lparr>kw_name = ''typing'',
              kw_version = ''0.0.1.dev1'',
              kw_description = ''Type annotations for Python'',
              kw_long_description = long_description,
              kw_author = ''Jukka Lehtosalo'',
              kw_author_email = ''jukka.lehtosalo@iki.fi'',
              kw_url = ''http://www.mypy-lang.org/'',
              kw_license = ''MIT License'',
              kw_platforms = [''POSIX''],
              kw_package_dir = [('''', dir)],
              kw_py_modules = [''typing''],
              kw_classifiers = classifiers\<rparr>"
proof -
  from assms(2) obtain k dir where m: "major v = Inr k" and l: "layout k = Some dir"
    using layout_2 layout_3 by blast
  have "select_package_dir k = Inr dir"
    using l by (simp add: select_package_dir_def)
  moreover have "setup_calls (snd (script setup v p)) = setup_calls p @ [metadata dir]"
    by (simp add: script_selects [OF assms(1) m l])
  moreover have "metadata dir =
             \<lparr>kw_name = ''typing'',
              kw_version = ''0.0.1.dev1'',
              kw_description = ''Type annotations for Python'',
              kw_long_description = long_description,
              kw_author = ''Jukka Lehtosalo'',
              kw_author_email = ''jukka.lehtosalo@iki.fi'',
              kw_url = ''http://www.mypy-lang.org/'',
              kw_license = ''MIT License'',
              kw_platforms = [''POSIX''],
              kw_package_dir = [('''', dir)],
              kw_py_modules = [''typing''],
              kw_classifiers = classifiers\<rparr>"
    by (simp add: metadata_def version_def description_def)
  ultimately show ?thesis
    using m by blast
qed

theorem setup_called_once_witness:
  "\<not> unsupported [2, 7, 0] \<and> major [2, 7, 0] = Inr 2 \<and>
   select_package_dir 2 = Inr ''python2'' \<and>
   setup_calls (snd (script setup_returning [2, 7, 0] fresh)) = [metadata ''python2''] \<and>
   length (setup_calls (snd (script setup_returning [2, 7, 0] fresh))) = 1 \<and>
   kw_py_modules (metadata ''python2'') = [''typing''] \<and>
   kw_package_dir (metadata ''python2'') = [('''', ''python2'')]"
proof -
  have a: "\<not> unsupported [2, 7, 0]"
    by (simp add: unsupported_def)
  have b: "major [2, 7, 0] = Inr 2 \<or> major [2, 7, 0] = Inr 3"
    by (simp add: major_def)
  from setup_called_once [OF a b, of setup_returning fresh]
  obtain k dir where "major [2, 7, 0] = Inr k" and "select_package_dir k = Inr dir"
    and c: "setup_calls (snd (script setup_returning [2, 7, 0] fresh)) =
      setup_calls fresh @ [metadata dir]"
    by blast
  then have "dir = ''python2''"
    by (simp add: major_def select_package_dir_def layout_2)
  with c a show ?thesis
    by (simp add: major_def select_package_dir_def layout_2 fresh_def metadata_def)
qed

text \<open>
  C8 as stated fails at \<open>(4, 0, 0)\<close>: the gate passes and \<open>setup\<close> is not called at
  all, since the lookup raises first.
\<close>

theorem major_four_never_calls_setup:
  "\<not> unsupported [4, 0, 0] \<and>
   setup_calls (snd (script setup_returning [4, 0, 0] fresh)) = [] \<and>
   length (setup_calls (snd (script setup_returning [4, 0, 0] fresh))) \<noteq> 1"
  using run_4_0_0 [of setup_returning]
  by (simp add: fresh_def)

text \<open>
  C9. The bare tuple \<open>(3,)\<close> passes the gate, and the selector then gives \<open>'.'\<close>,
  with which \<open>setup\<close> is called. Among the tuples of major version 3, the gate
  rejects exactly those strictly above \<open>(3,)\<close> and strictly below \<open>(3, 2, 0)\<close>.
\<close>

theorem bare_three_passes:
  "\<not> unsupported [3] \<and>
   script setup [3] p =
     (setup (metadata ''.''),
      p\<lparr>package_dir := Some ''.'', setup_calls := setup_calls p @ [metadata ''.'']\<rparr>) \<and>
   (\<forall>v. major v = Inr 3 \<longrightarrow>
      (unsupported v \<longleftrightarrow> tuple_lt [3] v \<and> tuple_lt v [3, 2, 0]))"
proof (intro conjI allI impI)
  show pass: "\<not> unsupported [3]"
    by (simp add: unsupported_def)
  have m: "major [3] = Inr 3"
    by (simp add: major_def)
  show "script setup [3] p =
     (setup (metadata ''.''),
      p\<lparr>package_dir := Some ''.'', setup_calls := setup_calls p @ [metadata ''.'']\<rparr>)"
    by (rule script_selects [OF pass m layout_3])
next
  fix v
  assume "major v = Inr 3"
  then obtain r where "v = 3 # r"
    by (auto simp: major_eq_Inr)
  then show "unsupported v \<longleftrightarrow> tuple_lt [3] v \<and> tuple_lt v [3, 2, 0]"
    by (simp add: unsupported_def)
qed

theorem bare_three_passes_witness:
  "\<not> unsupported [3] \<and>
   script setup_returning [3] fresh =
     (Inr (), \<lparr>err_stream = [], package_dir = Some ''.'', setup_calls = [metadata ''.'']\<rparr>) \<and>
   major [3, 1] = Inr 3 \<and> unsupported [3, 1] \<and>
   tuple_lt [3] [3, 1] \<and> tuple_lt [3, 1] [3, 2, 0] \<and>
   major [3, 2, 0] = Inr 3 \<and> \<not> unsupported [3, 2, 0] \<and> \<not> tuple_lt [3, 2, 0] [3, 2, 0]"
proof -
  note t = bare_three_passes [of setup_returning fresh]
  have a: "major [3, 1] = Inr 3" and b: "major [3, 2, 0] = Inr 3"
    by (simp_all add: major_def)
  from t a have "unsupported [3, 1] \<longleftrightarrow> tuple_lt [3] [3, 1] \<and> tuple_lt [3, 1] [3, 2, 0]"
    by blast
  moreover from t b
  have "unsupported [3, 2, 0] \<longleftrightarrow> tuple_lt [3] [3, 2, 0] \<and> tuple_lt [3, 2, 0] [3, 2, 0]"
    by blast
  ultimately show ?thesis
    using t a b by (simp add: fresh_def setup_returning_def)
qed

text \<open>
  What a run leaves behind does not depend on the toolchain: the text on the
  error stream, the selected directory and the records handed to \<open>setup\<close> are
  the same for any two toolchains. The record depends on the selected directory
  through its directory mapping only.
\<close>

lemma trace_independent_of_toolchain:
  "snd (script setup1 v p) = snd (script setup2 v p)"
  by (simp add: script_def split: sum.splits)

lemma metadata_dir_only:
  "metadata dir = (metadata dir')\<lparr>kw_package_dir := [('''', dir)]\<rparr>"
  by (simp add: metadata_def)

text \<open>
  The tuples that pass the gate, by their components: major version 2 with the
  rest at or above \<open>(7, 0)\<close>, major version 3 with no further component or with
  the rest at or above \<open>(2, 0)\<close>, and every major version from 4 on.
\<close>

theorem gate_passes_iff:
  "\<not> unsupported v \<longleftrightarrow>
     (\<exists>k r. v = k # r \<and>
        (k = 2 \<and> tuple_le [7, 0] r \<or> k = 3 \<and> (r = [] \<or> tuple_le [2, 0] r) \<or> 4 \<le> k))"
proof (cases v)
  case Nil
  then show ?thesis
    by (simp add: unsupported_Nil)
next
  case (Cons a r)
  then show ?thesis
    by (auto simp: unsupported_Cons tuple_le_iff_not_lt)
qed

theorem gate_passes_iff_witness:
  "\<not> unsupported [3, 2, 0] \<and> tuple_le [2, 0] [2, 0] \<and> unsupported [2, 6, 9] \<and>
   \<not> tuple_le [7, 0] [6, 9]"
  using gate_passes_iff [of "[3, 2, 0]"] gate_passes_iff [of "[2, 6, 9]"]
  by simp

end
